theory Spec2Isabelle
  imports Main "HOL-Library.Word" "HOL-Library.AList"
begin

section \<open>The storage bridge of src/common/db\_bridge.h\<close>

text \<open>
  The header declares the adapter interface \<open>i_db_adapter\<close>, the broker
  \<open>db_bridge_base\<close> that owns one adapter and a set of notification receivers, the two
  value helpers, and the accessor \<open>key_value_accessor_base\<close>. Every member function is
  embedded as a function that takes the state it reads and returns the state it leaves;
  the thread that makes a call is an explicit argument, since the accessor keeps a
  per-thread marker. A C++ exception is a value \<open>Inl e\<close> next to the state the throw
  leaves behind.
\<close>

subsection \<open>Basic types\<close>

type_synonym table_id = "64 word"
type_synonym buffer = "8 word list"
type_synonym thread_id = nat
type_synonym receiver_ptr = nat

text \<open>
  Every call through one of the two virtual interfaces is appended to a log, in the order
  in which the calls are made. No operation reads the log: it is the means to say
  which calls an operation makes, and in which order.
\<close>

datatype db_call =
    Call_open string
  | Call_open_table string
  | Call_clear_table table_id
  | Call_get_table_size table_id
  | Call_close
  | Call_begin_transaction bool
  | Call_commit_transaction
  | Call_abort_transaction
  | Call_get table_id buffer
  | Call_set table_id buffer buffer
  | Call_erase table_id buffer
  | Notify_begin receiver_ptr
  | Notify_commit receiver_ptr
  | Notify_abort receiver_ptr

datatype db_error = runtime_error string

subsection \<open>The adapter interface\<close>

text \<open>
  \<open>i_db_adapter\<close> is a class of pure virtual functions: an implementation is a table
  of functions over the engine's own state \<open>'ad\<close>. A \<open>bool\<close> function with an output
  parameter returns the pair of both. \<open>visit_table\<close> is used by no function embedded
  here.
\<close>

record 'ad i_db_adapter =
  ad_open :: "string \<Rightarrow> 'ad \<Rightarrow> bool \<times> 'ad"
  ad_open_table :: "string \<Rightarrow> 'ad \<Rightarrow> (bool \<times> table_id) \<times> 'ad"
  ad_clear_table :: "table_id \<Rightarrow> 'ad \<Rightarrow> bool \<times> 'ad"
  ad_get_table_size :: "table_id \<Rightarrow> 'ad \<Rightarrow> 64 word \<times> 'ad"
  ad_close :: "'ad \<Rightarrow> bool \<times> 'ad"
  ad_begin_transaction :: "bool \<Rightarrow> 'ad \<Rightarrow> bool \<times> 'ad"
  ad_commit_transaction :: "'ad \<Rightarrow> bool \<times> 'ad"
  ad_abort_transaction :: "'ad \<Rightarrow> 'ad"
  ad_get :: "table_id \<Rightarrow> buffer \<Rightarrow> 'ad \<Rightarrow> (bool \<times> buffer) \<times> 'ad"
  ad_set :: "table_id \<Rightarrow> buffer \<Rightarrow> buffer \<Rightarrow> 'ad \<Rightarrow> bool \<times> 'ad"
  ad_erase :: "table_id \<Rightarrow> buffer \<Rightarrow> 'ad \<Rightarrow> bool \<times> 'ad"

subsection \<open>Fixed-layout types and keys\<close>

text \<open>
  A POD type is given by its size, the bytes of an object
  (\<open>reinterpret_cast<const char*>(&obj)\<close>, \<open>sizeof obj\<close> of them) and the object a
  buffer of that size is read as (\<open>*reinterpret_cast<const T*>(buffer.data())\<close>).
\<close>

record 'a pod_type =
  pod_sizeof :: nat
  object_bytes :: "'a \<Rightarrow> buffer"
  object_of_bytes :: "buffer \<Rightarrow> 'a"

definition is_pod :: "'a pod_type \<Rightarrow> bool" where
  "is_pod P \<longleftrightarrow>
     (\<forall>v. length (object_bytes P v) = pod_sizeof P \<and> object_of_bytes P (object_bytes P v) = v)"

text \<open>The two overloads of \<open>tkey_to_pointer\<close>: the key's bytes and their number.\<close>

definition tkey_to_pointer_pod :: "'k pod_type \<Rightarrow> 'k \<Rightarrow> buffer" where
  "tkey_to_pointer_pod K tkey = object_bytes K tkey"

definition tkey_to_pointer_string :: "buffer \<Rightarrow> buffer" where
  "tkey_to_pointer_string key = key"

subsection \<open>Macros of misc\_log\_ex.h\<close>

text \<open>
  Modelled from the spec: \<open>CHECK_AND_ASSERT_THROW_MES\<close> and \<open>CHECK_AND_ASSERT_MES\<close>
  are macros of misc\_log\_ex.h, which is not part of the sources at hand. The first
  fails loudly (throws, with the message) when its condition is false; the second
  returns the given value from the enclosing function when its condition is false.
\<close>

definition CHECK_AND_ASSERT_THROW_MES :: "bool \<Rightarrow> string \<Rightarrow> db_error + unit" where
  "CHECK_AND_ASSERT_THROW_MES expr message =
     (if expr then Inr () else Inl (runtime_error message))"

definition CHECK_AND_ASSERT_MES :: "bool \<Rightarrow> 'r \<Rightarrow> 'r option" where
  "CHECK_AND_ASSERT_MES expr fail_ret_val = (if expr then None else Some fail_ret_val)"

subsection \<open>The exclusive access helper\<close>

text \<open>
  Modelled from the spec: \<open>epee::misc_utils::exclusive_access_helper\<close> is declared in
  misc\_language.h, which is not part of the sources at hand. The spec describes it as a
  per-thread flag (a mapping from thread identity to a boolean) that
  \<open>on_write_transaction_begin\<close> sets for the calling thread and commit and abort clear;
  \<open>run\<close> hands the calling thread's flag to its callback, and \<open>run_exclusively\<close> runs
  its callback whatever the flag is. The helper is the set of threads whose flag is set.
\<close>

type_synonym exclusive_access_helper = "thread_id set"

definition set_exclusive_mode_for_this_thread ::
  "thread_id \<Rightarrow> exclusive_access_helper \<Rightarrow> exclusive_access_helper" where
  "set_exclusive_mode_for_this_thread this_thread h = insert this_thread h"

definition clear_exclusive_mode_for_this_thread ::
  "thread_id \<Rightarrow> exclusive_access_helper \<Rightarrow> exclusive_access_helper" where
  "clear_exclusive_mode_for_this_thread this_thread h = h - {this_thread}"

definition run :: "thread_id \<Rightarrow> exclusive_access_helper \<Rightarrow> (bool \<Rightarrow> 'r) \<Rightarrow> 'r" where
  "run this_thread h cb = cb (this_thread \<in> h)"

definition run_exclusively :: "exclusive_access_helper \<Rightarrow> (unit \<Rightarrow> 'r) \<Rightarrow> 'r" where
  "run_exclusively h cb = cb ()"

subsection \<open>The accessor object and its notification handlers\<close>

text \<open>
  The data members of \<open>key_value_accessor_base\<close>. The reference \<open>m_dbb\<close> is the one
  broker of the program state below.
\<close>

record key_value_accessor_base =
  m_tid :: table_id
  m_exclusive_runner :: exclusive_access_helper
  m_cached_size :: "64 word"
  m_cached_size_is_valid :: bool

definition on_write_transaction_begin ::
  "thread_id \<Rightarrow> key_value_accessor_base \<Rightarrow> key_value_accessor_base" where
  "on_write_transaction_begin this_thread a =
     a\<lparr>m_exclusive_runner := set_exclusive_mode_for_this_thread this_thread (m_exclusive_runner a)\<rparr>"

definition on_write_transaction_abort ::
  "thread_id \<Rightarrow> key_value_accessor_base \<Rightarrow> key_value_accessor_base" where
  "on_write_transaction_abort this_thread a =
     a\<lparr>m_exclusive_runner := clear_exclusive_mode_for_this_thread this_thread (m_exclusive_runner a)\<rparr>"

definition on_write_transaction_commit ::
  "thread_id \<Rightarrow> key_value_accessor_base \<Rightarrow> key_value_accessor_base" where
  "on_write_transaction_commit this_thread a =
     a\<lparr>m_exclusive_runner := clear_exclusive_mode_for_this_thread this_thread (m_exclusive_runner a)\<rparr>"

subsection \<open>The program state\<close>

text \<open>
  The broker's members (\<open>m_db_opened\<close>, \<open>m_attached_container_receivers\<close>), the state
  of the adapter object behind \<open>m_db_adapter_ptr\<close>, the accessor objects that receiver
  pointers point to, and the call log. The \<open>std::set\<close> of receiver pointers is the list
  of its elements in ascending order, which is the order a range-for visits them in.
\<close>

record 'ad db_state =
  m_db_adapter_ptr :: 'ad
  m_db_opened :: bool
  m_attached_container_receivers :: "receiver_ptr list"
  objects :: "receiver_ptr \<rightharpoonup> key_value_accessor_base"
  calls :: "db_call list"

text \<open>A call of an adapter function: the adapter's state changes and the call is logged.\<close>

definition adapter_call :: "('ad \<Rightarrow> 'r \<times> 'ad) \<Rightarrow> db_call \<Rightarrow> 'ad db_state \<Rightarrow> 'r \<times> 'ad db_state" where
  "adapter_call f c s =
     (let (r, a) = f (m_db_adapter_ptr s)
      in (r, s\<lparr>m_db_adapter_ptr := a, calls := calls s @ [c]\<rparr>))"

text \<open>
  The virtual call \<open>c->handler()\<close> on a receiver pointer: the handler runs on the
  object \<open>c\<close> points to. A pointer to no object is undefined behaviour in the source;
  the embedding logs the call and changes no object.
\<close>

definition receiver_call ::
  "(key_value_accessor_base \<Rightarrow> key_value_accessor_base) \<Rightarrow> db_call \<Rightarrow> receiver_ptr \<Rightarrow>
   'ad db_state \<Rightarrow> 'ad db_state" where
  "receiver_call handler ev c s =
     s\<lparr>objects := (case objects s c of
                     None \<Rightarrow> objects s
                   | Some a \<Rightarrow> (objects s)(c \<mapsto> handler a)),
       calls := calls s @ [ev]\<rparr>"

subsection \<open>db\_bridge\_base\<close>

definition begin_db_transaction ::
  "'ad i_db_adapter \<Rightarrow> thread_id \<Rightarrow> bool \<Rightarrow> 'ad db_state \<Rightarrow> bool \<times> 'ad db_state" where
  "begin_db_transaction ad this_thread read_only_access s =
     (let (r, s1) = adapter_call (ad_begin_transaction ad read_only_access)
                      (Call_begin_transaction read_only_access) s;
          s2 = fold (\<lambda>c. receiver_call (on_write_transaction_begin this_thread) (Notify_begin c) c)
                 (m_attached_container_receivers s1) s1
      in (r, s2))"

definition commit_db_transaction ::
  "'ad i_db_adapter \<Rightarrow> thread_id \<Rightarrow> 'ad db_state \<Rightarrow> (db_error + unit) \<times> 'ad db_state" where
  "commit_db_transaction ad this_thread s =
     (let (r, s1) = adapter_call (ad_commit_transaction ad) Call_commit_transaction s
      in case CHECK_AND_ASSERT_THROW_MES r ''commit_transaction failed'' of
           Inl e \<Rightarrow> (Inl e, s1)
         | Inr _ \<Rightarrow>
             (Inr (),
              fold (\<lambda>c. receiver_call (on_write_transaction_commit this_thread) (Notify_commit c) c)
                (m_attached_container_receivers s1) s1))"

definition abort_db_transaction ::
  "'ad i_db_adapter \<Rightarrow> thread_id \<Rightarrow> 'ad db_state \<Rightarrow> 'ad db_state" where
  "abort_db_transaction ad this_thread s =
     (let (u, s1) = adapter_call (\<lambda>a. ((), ad_abort_transaction ad a)) Call_abort_transaction s
      in fold (\<lambda>c. receiver_call (on_write_transaction_abort this_thread) (Notify_abort c) c)
           (m_attached_container_receivers s1) s1)"

definition is_open :: "'ad db_state \<Rightarrow> bool" where
  "is_open s = m_db_opened s"

definition db_bridge_base_open ::
  "'ad i_db_adapter \<Rightarrow> string \<Rightarrow> 'ad db_state \<Rightarrow> bool \<times> 'ad db_state" where
  "db_bridge_base_open ad db_name s =
     (let (r, s1) = adapter_call (ad_open ad db_name) (Call_open db_name) s;
          s2 = s1\<lparr>m_db_opened := r\<rparr>
      in (m_db_opened s2, s2))"

definition db_bridge_base_close :: "'ad i_db_adapter \<Rightarrow> 'ad db_state \<Rightarrow> bool \<times> 'ad db_state" where
  "db_bridge_base_close ad s =
     (let s1 = s\<lparr>m_db_opened := False\<rparr>
      in adapter_call (ad_close ad) Call_close s1)"

definition db_bridge_base_clear ::
  "'ad i_db_adapter \<Rightarrow> table_id \<Rightarrow> 'ad db_state \<Rightarrow> bool \<times> 'ad db_state" where
  "db_bridge_base_clear ad tid s = adapter_call (ad_clear_table ad tid) (Call_clear_table tid) s"

definition db_bridge_base_size ::
  "'ad i_db_adapter \<Rightarrow> table_id \<Rightarrow> 'ad db_state \<Rightarrow> 64 word \<times> 'ad db_state" where
  "db_bridge_base_size ad tid s =
     adapter_call (ad_get_table_size ad tid) (Call_get_table_size tid) s"

definition db_bridge_base_erase ::
  "'ad i_db_adapter \<Rightarrow> ('k \<Rightarrow> buffer) \<Rightarrow> table_id \<Rightarrow> 'k \<Rightarrow> 'ad db_state \<Rightarrow> bool \<times> 'ad db_state" where
  "db_bridge_base_erase ad tkey_to_pointer tid tkey s =
     (let key_data = tkey_to_pointer tkey
      in adapter_call (ad_erase ad tid key_data) (Call_erase tid key_data) s)"

text \<open>
  \<open>get_pod_object\<close> writes \<open>obj\<close> only on success: the result is the returned
  \<open>bool\<close> and the object the caller's variable then holds.
\<close>

definition get_pod_object ::
  "'ad i_db_adapter \<Rightarrow> ('k \<Rightarrow> buffer) \<Rightarrow> 'v pod_type \<Rightarrow> table_id \<Rightarrow> 'k \<Rightarrow> 'v \<Rightarrow> 'ad db_state \<Rightarrow>
   (bool \<times> 'v) \<times> 'ad db_state" where
  "get_pod_object ad tkey_to_pointer V tid tkey obj s =
     (let key_data = tkey_to_pointer tkey;
          ((found, buffer), s1) = adapter_call (ad_get ad tid key_data) (Call_get tid key_data) s
      in if \<not> found then ((False, obj), s1)
         else case CHECK_AND_ASSERT_MES (pod_sizeof V = length buffer) False of
                Some fail_ret_val \<Rightarrow> ((fail_ret_val, obj), s1)
              | None \<Rightarrow> ((True, object_of_bytes V buffer), s1))"

definition set_pod_object ::
  "'ad i_db_adapter \<Rightarrow> ('k \<Rightarrow> buffer) \<Rightarrow> 'v pod_type \<Rightarrow> table_id \<Rightarrow> 'k \<Rightarrow> 'v \<Rightarrow> 'ad db_state \<Rightarrow>
   bool \<times> 'ad db_state" where
  "set_pod_object ad tkey_to_pointer V tid tkey obj s =
     (let key_data = tkey_to_pointer tkey;
          value_data = object_bytes V obj;
          (r, s1) = adapter_call (ad_set ad tid key_data value_data)
                      (Call_set tid key_data value_data) s
      in if \<not> r then (False, s1) else (True, s1))"

text \<open>
  \<open>std::set::insert\<close> returns whether the element was added; \<open>std::set::erase\<close>
  returns the number of elements removed.
\<close>

definition std_set_insert :: "receiver_ptr \<Rightarrow> receiver_ptr list \<Rightarrow> receiver_ptr list \<times> bool" where
  "std_set_insert x xs = (if x \<in> set xs then (xs, False) else (insort x xs, True))"

definition std_set_erase :: "receiver_ptr \<Rightarrow> receiver_ptr list \<Rightarrow> receiver_ptr list \<times> nat" where
  "std_set_erase x xs = (if x \<in> set xs then (removeAll x xs, 1) else (xs, 0))"

definition attach_container_receiver ::
  "receiver_ptr \<Rightarrow> 'ad db_state \<Rightarrow> (db_error + unit) \<times> 'ad db_state" where
  "attach_container_receiver receiver s =
     (let (xs, r) = std_set_insert receiver (m_attached_container_receivers s);
          s1 = s\<lparr>m_attached_container_receivers := xs\<rparr>
      in (CHECK_AND_ASSERT_THROW_MES r ''failed, container already attached'', s1))"

definition detach_container_receiver ::
  "receiver_ptr \<Rightarrow> 'ad db_state \<Rightarrow> (db_error + unit) \<times> 'ad db_state" where
  "detach_container_receiver receiver s =
     (let (xs, n) = std_set_erase receiver (m_attached_container_receivers s);
          s1 = s\<lparr>m_attached_container_receivers := xs\<rparr>;
          r = (n = 1)
      in (CHECK_AND_ASSERT_THROW_MES r ''failed, container has never been attached'', s1))"

subsection \<open>The value helpers\<close>

text \<open>
  \<open>value_type_helper_selector<true>\<close> is \<open>serializable_object_value_helper\<close> and
  \<open>value_type_helper_selector<false>\<close> is \<open>pod_object_value_helper\<close>. In the source
  at hand the body of every helper function is a \<open>TODO\<close> comment: \<open>get\<close> returns
  \<open>nullptr\<close> and \<open>set\<close> does nothing. A \<open>std::shared_ptr<const value_t>\<close> is an
  option, \<open>nullptr\<close> being \<open>None\<close>.
\<close>

definition pod_object_value_helper_get ::
  "table_id \<Rightarrow> 'k \<Rightarrow> 'ad db_state \<Rightarrow> 'v option \<times> 'ad db_state" where
  "pod_object_value_helper_get tid k dbb = (None, dbb)"

definition pod_object_value_helper_set ::
  "table_id \<Rightarrow> 'k \<Rightarrow> 'v \<Rightarrow> 'ad db_state \<Rightarrow> 'ad db_state" where
  "pod_object_value_helper_set tid k v dbb = dbb"

definition serializable_object_value_helper_get ::
  "table_id \<Rightarrow> 'k \<Rightarrow> 'ad db_state \<Rightarrow> 'v option \<times> 'ad db_state" where
  "serializable_object_value_helper_get tid k dbb = (None, dbb)"

definition serializable_object_value_helper_set ::
  "table_id \<Rightarrow> 'k \<Rightarrow> 'v \<Rightarrow> 'ad db_state \<Rightarrow> 'ad db_state" where
  "serializable_object_value_helper_set tid k v dbb = dbb"

definition value_type_helper_selector_get ::
  "bool \<Rightarrow> table_id \<Rightarrow> 'k \<Rightarrow> 'ad db_state \<Rightarrow> 'v option \<times> 'ad db_state" where
  "value_type_helper_selector_get value_type_serializable =
     (if value_type_serializable then serializable_object_value_helper_get
      else pod_object_value_helper_get)"

definition value_type_helper_selector_set ::
  "bool \<Rightarrow> table_id \<Rightarrow> 'k \<Rightarrow> 'v \<Rightarrow> 'ad db_state \<Rightarrow> 'ad db_state" where
  "value_type_helper_selector_set value_type_serializable =
     (if value_type_serializable then serializable_object_value_helper_set
      else pod_object_value_helper_set)"

subsection \<open>key\_value\_accessor\_base\<close>

text \<open>
  A member function takes the object \<open>*this\<close> and the program state and returns its
  result, the object and the state. \<open>m_cached_size\<close> and \<open>m_cached_size_is_valid\<close>
  are \<open>mutable\<close>, so the \<open>const\<close> function \<open>size\<close> returns an object too. The
  template parameter \<open>value_type_serializable\<close> is the first argument of the functions
  that use it.
\<close>

definition accessor_set ::
  "bool \<Rightarrow> 'k \<Rightarrow> 'v \<Rightarrow> key_value_accessor_base \<Rightarrow> 'ad db_state \<Rightarrow>
   key_value_accessor_base \<times> 'ad db_state" where
  "accessor_set value_type_serializable key val a s =
     (let a1 = a\<lparr>m_cached_size_is_valid := False\<rparr>;
          s1 = value_type_helper_selector_set value_type_serializable (m_tid a1) key val s
      in (a1, s1))"

definition accessor_get ::
  "bool \<Rightarrow> 'k \<Rightarrow> key_value_accessor_base \<Rightarrow> 'ad db_state \<Rightarrow> 'v option \<times> 'ad db_state" where
  "accessor_get value_type_serializable key a s =
     value_type_helper_selector_get value_type_serializable (m_tid a) key s"

definition accessor_size ::
  "'ad i_db_adapter \<Rightarrow> thread_id \<Rightarrow> key_value_accessor_base \<Rightarrow> 'ad db_state \<Rightarrow>
   64 word \<times> key_value_accessor_base \<times> 'ad db_state" where
  "accessor_size ad this_thread a s =
     run this_thread (m_exclusive_runner a) (\<lambda>exclusive_mode.
       if exclusive_mode \<and> m_cached_size_is_valid a then (m_cached_size a, a, s)
       else
         let (size, s1) = db_bridge_base_size ad (m_tid a) s
         in if exclusive_mode
            then (size, a\<lparr>m_cached_size := size, m_cached_size_is_valid := True\<rparr>, s1)
            else (size, a, s1))"

definition size_no_cache ::
  "'ad i_db_adapter \<Rightarrow> key_value_accessor_base \<Rightarrow> 'ad db_state \<Rightarrow>
   64 word \<times> key_value_accessor_base \<times> 'ad db_state" where
  "size_no_cache ad a s =
     (let (size, s1) = db_bridge_base_size ad (m_tid a) s in (size, a, s1))"

text \<open>\<open>clear\<close> is declared \<open>size_t\<close> and ends in \<open>return true\<close>: it returns 1.\<close>

definition accessor_clear ::
  "'ad i_db_adapter \<Rightarrow> key_value_accessor_base \<Rightarrow> 'ad db_state \<Rightarrow>
   64 word \<times> key_value_accessor_base \<times> 'ad db_state" where
  "accessor_clear ad a s =
     (let (cleared, s1) = db_bridge_base_clear ad (m_tid a) s;
          (done, a1) = run_exclusively (m_exclusive_runner a)
                         (\<lambda>u. (True, a\<lparr>m_cached_size_is_valid := False\<rparr>))
      in (1, a1, s1))"

text \<open>
  In \<open>erase_validate\<close> the pointer \<open>res_ptr\<close> is the result of the accessor's own
  \<open>get\<close>, and the function returns \<open>static_cast<bool>(res_ptr)\<close>. The argument
  \<open>value_t\<close> only names the template parameter of that name, the type of the values.
\<close>

definition erase_validate ::
  "'ad i_db_adapter \<Rightarrow> ('k \<Rightarrow> buffer) \<Rightarrow> bool \<Rightarrow> 'v itself \<Rightarrow> 'k \<Rightarrow> key_value_accessor_base \<Rightarrow>
   'ad db_state \<Rightarrow> bool \<times> key_value_accessor_base \<times> 'ad db_state" where
  "erase_validate ad tkey_to_pointer value_type_serializable value_t k a s =
     (let (res_ptr :: 'v option, s1) = accessor_get value_type_serializable k a s;
          (erased, s2) = db_bridge_base_erase ad tkey_to_pointer (m_tid a) k s1;
          (done, a1) = run_exclusively (m_exclusive_runner a)
                         (\<lambda>u. (True, a\<lparr>m_cached_size_is_valid := False\<rparr>))
      in (res_ptr \<noteq> None, a1, s2))"

definition accessor_erase ::
  "'ad i_db_adapter \<Rightarrow> ('k \<Rightarrow> buffer) \<Rightarrow> 'k \<Rightarrow> key_value_accessor_base \<Rightarrow> 'ad db_state \<Rightarrow>
   key_value_accessor_base \<times> 'ad db_state" where
  "accessor_erase ad tkey_to_pointer k a s =
     (let (erased, s1) = db_bridge_base_erase ad tkey_to_pointer (m_tid a) k s;
          (done, a1) = run_exclusively (m_exclusive_runner a)
                         (\<lambda>u. (True, a\<lparr>m_cached_size_is_valid := False\<rparr>))
      in (a1, s1))"

subsection \<open>An adapter in memory\<close>

text \<open>
  The storage engine is outside the header. To run the functions above on concrete
  inputs, \<open>mem_adapter\<close> implements the interface over an association list from
  (table, key) to value. While \<open>healthy\<close> is false, every function that reports
  success by a \<open>bool\<close> reports failure and changes nothing. It keeps no transaction
  snapshot: \<open>abort_transaction\<close> changes nothing.
\<close>

record mem_db =
  entries :: "((table_id \<times> buffer) \<times> buffer) list"
  healthy :: bool

definition in_table :: "table_id \<Rightarrow> (table_id \<times> buffer) \<times> buffer \<Rightarrow> bool" where
  "in_table tid e = (fst (fst e) = tid)"

definition mem_clear_table :: "table_id \<Rightarrow> mem_db \<Rightarrow> bool \<times> mem_db" where
  "mem_clear_table tid d =
     (if healthy d then (True, d\<lparr>entries := filter (\<lambda>e. \<not> in_table tid e) (entries d)\<rparr>)
      else (False, d))"

definition mem_get_table_size :: "table_id \<Rightarrow> mem_db \<Rightarrow> 64 word \<times> mem_db" where
  "mem_get_table_size tid d = (of_nat (length (filter (in_table tid) (entries d))), d)"

definition mem_get :: "table_id \<Rightarrow> buffer \<Rightarrow> mem_db \<Rightarrow> (bool \<times> buffer) \<times> mem_db" where
  "mem_get tid key d =
     (case map_of (entries d) (tid, key) of
        None \<Rightarrow> ((False, []), d)
      | Some v \<Rightarrow> ((healthy d, v), d))"

definition mem_set :: "table_id \<Rightarrow> buffer \<Rightarrow> buffer \<Rightarrow> mem_db \<Rightarrow> bool \<times> mem_db" where
  "mem_set tid key val d =
     (if healthy d then (True, d\<lparr>entries := AList.update (tid, key) val (entries d)\<rparr>)
      else (False, d))"

definition mem_erase :: "table_id \<Rightarrow> buffer \<Rightarrow> mem_db \<Rightarrow> bool \<times> mem_db" where
  "mem_erase tid key d =
     (if healthy d \<and> map_of (entries d) (tid, key) \<noteq> None
      then (True, d\<lparr>entries := AList.delete (tid, key) (entries d)\<rparr>)
      else (False, d))"

definition mem_adapter :: "mem_db i_db_adapter" where
  "mem_adapter =
     \<lparr>ad_open = (\<lambda>db_name d. (healthy d, d)),
      ad_open_table = (\<lambda>table_name d. ((healthy d, 0), d)),
      ad_clear_table = mem_clear_table,
      ad_get_table_size = mem_get_table_size,
      ad_close = (\<lambda>d. (healthy d, d)),
      ad_begin_transaction = (\<lambda>read_only_access d. (healthy d, d)),
      ad_commit_transaction = (\<lambda>d. (healthy d, d)),
      ad_abort_transaction = (\<lambda>d. d),
      ad_get = mem_get,
      ad_set = mem_set,
      ad_erase = mem_erase\<rparr>"

text \<open>A one-byte POD type, \<open>uint8_t\<close>.\<close>

definition uint8_pod :: "8 word pod_type" where
  "uint8_pod =
     \<lparr>pod_sizeof = 1, object_bytes = (\<lambda>v. [v]), object_of_bytes = (\<lambda>b. hd b)\<rparr>"

text \<open>A POD struct of two bytes, \<open>struct { uint8_t lo; uint8_t hi; }\<close>.\<close>

definition two_bytes_pod :: "(8 word \<times> 8 word) pod_type" where
  "two_bytes_pod =
     \<lparr>pod_sizeof = 2,
      object_bytes = (\<lambda>v. [fst v, snd v]),
      object_of_bytes = (\<lambda>b. (b ! 0, b ! 1))\<rparr>"

subsection \<open>Concrete inputs\<close>

text \<open>
  The members of an accessor as its constructor initialises them, before \<open>init\<close> has
  assigned a table: table 0, no cached size, no thread in exclusive mode.
\<close>

definition new_accessor :: key_value_accessor_base where
  "new_accessor =
     \<lparr>m_tid = 0, m_exclusive_runner = {}, m_cached_size = 0, m_cached_size_is_valid = False\<rparr>"

text \<open>
  A program state over the adapter in memory: table 0 holds one entry, with the one-byte
  key 107 and a value of two bytes; two accessors are attached, at the addresses 1 and
  2, and the second one holds a valid cached size.
\<close>

definition example_state :: "bool \<Rightarrow> mem_db db_state" where
  "example_state ok =
     \<lparr>m_db_adapter_ptr = \<lparr>entries = [((0, [107]), [1, 0])], healthy = ok\<rparr>,
      m_db_opened = True,
      m_attached_container_receivers = [1, 2],
      objects = [1 \<mapsto> new_accessor,
                 2 \<mapsto> new_accessor\<lparr>m_cached_size := 1, m_cached_size_is_valid := True\<rparr>],
      calls = []\<rparr>"

text \<open>
  What the round trip of a fixed-layout value asks of the engine: a \<open>get\<close> that
  follows a successful \<open>set\<close> of the same table and key finds the entry and returns
  exactly the bytes that were stored.
\<close>

definition returns_last_stored :: "'ad i_db_adapter \<Rightarrow> bool" where
  "returns_last_stored ad \<longleftrightarrow>
     (\<forall>tid key val d.
        fst (ad_set ad tid key val d) \<longrightarrow>
        fst (ad_get ad tid key (snd (ad_set ad tid key val d))) = (True, val))"

section \<open>Properties\<close>

subsection \<open>Calls and fan-out\<close>

lemma adapter_call_fst: "fst (adapter_call f c s) = fst (f (m_db_adapter_ptr s))"
  by (simp add: adapter_call_def split_beta)

lemma adapter_call_snd:
  "snd (adapter_call f c s) =
     s\<lparr>m_db_adapter_ptr := snd (f (m_db_adapter_ptr s)), calls := calls s @ [c]\<rparr>"
  by (simp add: adapter_call_def split_beta)

lemma receiver_call_objects:
  "objects (receiver_call h ev c s) x =
     (if x = c then map_option h (objects s c) else objects s x)"
  by (simp add: receiver_call_def split: option.splits)

text \<open>The loop over the attached receivers logs one notification per receiver, in order.\<close>

lemma fold_receiver_call_calls:
  "calls (fold (\<lambda>c. receiver_call h (ev c) c) cs s) = calls s @ map ev cs"
  by (induction cs arbitrary: s) (simp_all add: receiver_call_def)

lemma fold_receiver_call_adapter:
  "m_db_adapter_ptr (fold (\<lambda>c. receiver_call h (ev c) c) cs s) = m_db_adapter_ptr s"
  by (induction cs arbitrary: s) (simp_all add: receiver_call_def)

lemma fold_receiver_call_receivers:
  "m_attached_container_receivers (fold (\<lambda>c. receiver_call h (ev c) c) cs s) =
   m_attached_container_receivers s"
  by (induction cs arbitrary: s) (simp_all add: receiver_call_def)

text \<open>
  The three handlers are idempotent, so the loop leaves on every object it visits the
  handler's result, and leaves every other object alone.
\<close>

lemma fold_receiver_call_objects:
  assumes "\<And>a. h (h a) = h a"
  shows "objects (fold (\<lambda>c. receiver_call h (ev c) c) cs s) x =
     (if x \<in> set cs then map_option h (objects s x) else objects s x)"
proof (induction cs arbitrary: s)
  case Nil
  show ?case by simp
next
  case (Cons c cs)
  show ?case
    by (cases "objects s x") (auto simp add: Cons.IH receiver_call_objects assms)
qed

lemma on_write_transaction_begin_idem:
  "on_write_transaction_begin t (on_write_transaction_begin t a) = on_write_transaction_begin t a"
  by (simp add: on_write_transaction_begin_def set_exclusive_mode_for_this_thread_def)

lemma on_write_transaction_commit_idem:
  "on_write_transaction_commit t (on_write_transaction_commit t a) = on_write_transaction_commit t a"
  by (simp add: on_write_transaction_commit_def clear_exclusive_mode_for_this_thread_def)

lemma on_write_transaction_abort_idem:
  "on_write_transaction_abort t (on_write_transaction_abort t a) = on_write_transaction_abort t a"
  by (simp add: on_write_transaction_abort_def clear_exclusive_mode_for_this_thread_def)

subsection \<open>The set of receivers\<close>

lemma removeAll_insort:
  "x \<notin> set xs \<Longrightarrow> removeAll x (insort x xs) = (xs :: receiver_ptr list)"
  by (induction xs) auto

text \<open>Both operations keep the list strictly ascending, as a \<open>std::set\<close> is.\<close>

lemma std_set_insert_ascending:
  "sorted xs \<Longrightarrow> distinct xs \<Longrightarrow>
   sorted (fst (std_set_insert x xs)) \<and> distinct (fst (std_set_insert x xs))"
  by (simp add: std_set_insert_def sorted_insort distinct_insort)

lemma std_set_erase_ascending:
  "sorted xs \<Longrightarrow> distinct xs \<Longrightarrow>
   sorted (fst (std_set_erase x xs)) \<and> distinct (fst (std_set_erase x xs))"
  by (simp add: std_set_erase_def removeAll_filter_not_eq sorted_filter [where f = "\<lambda>x. x", simplified])

subsection \<open>The concrete inputs\<close>

lemma example_state_simps:
  "m_db_adapter_ptr (example_state ok) = \<lparr>entries = [((0, [107]), [1, 0])], healthy = ok\<rparr>"
  "m_db_opened (example_state ok) = True"
  "m_attached_container_receivers (example_state ok) = [1, 2]"
  "objects (example_state ok) =
     [1 \<mapsto> new_accessor,
      2 \<mapsto> new_accessor\<lparr>m_cached_size := 1, m_cached_size_is_valid := True\<rparr>]"
  "calls (example_state ok) = []"
  by (simp_all add: example_state_def)

lemma mem_adapter_simps:
  "ad_open mem_adapter db_name d = (healthy d, d)"
  "ad_clear_table mem_adapter = mem_clear_table"
  "ad_get_table_size mem_adapter = mem_get_table_size"
  "ad_close mem_adapter d = (healthy d, d)"
  "ad_begin_transaction mem_adapter ro d = (healthy d, d)"
  "ad_commit_transaction mem_adapter d = (healthy d, d)"
  "ad_abort_transaction mem_adapter d = d"
  "ad_get mem_adapter = mem_get"
  "ad_set mem_adapter = mem_set"
  "ad_erase mem_adapter = mem_erase"
  by (simp_all add: mem_adapter_def)

lemma is_pod_two_bytes_pod: "is_pod two_bytes_pod"
  by (simp add: is_pod_def two_bytes_pod_def)

lemma is_pod_uint8_pod: "is_pod uint8_pod"
  by (simp add: is_pod_def uint8_pod_def)

lemma returns_last_stored_mem_adapter: "returns_last_stored mem_adapter"
  by (simp add: returns_last_stored_def mem_adapter_simps mem_set_def mem_get_def update_conv')

subsection \<open>Notification handlers and the size cache\<close>

text \<open>
  C1, as stated, fails. Neither handler writes \<open>m_cached_size_is_valid\<close>: in the
  example state the accessor at address 2 is attached and holds a valid cached size, and
  the size is still valid after the broker's abort and after the broker's successful
  commit have notified it.
\<close>

theorem notification_keeps_valid_cache:
  "2 \<in> set (m_attached_container_receivers (example_state True)) \<and>
   map_option m_cached_size_is_valid (objects (example_state True) 2) = Some True \<and>
   map_option m_cached_size_is_valid
     (objects (abort_db_transaction mem_adapter 7 (example_state True)) 2) = Some True \<and>
   map_option m_cached_size_is_valid
     (objects (snd (commit_db_transaction mem_adapter 7 (example_state True))) 2) = Some True"
  by (simp add: abort_db_transaction_def commit_db_transaction_def adapter_call_def
      receiver_call_def example_state_def mem_adapter_simps new_accessor_def
      CHECK_AND_ASSERT_THROW_MES_def
      on_write_transaction_abort_def on_write_transaction_commit_def)

text \<open>
  C1, amended: the handlers \<open>on_write_transaction_commit\<close> and
  \<open>on_write_transaction_abort\<close> both clear the exclusive marker of the notifying thread
  and of no other thread; the commit handler leaves the cached size and its validity
  flag as they were; the broker's abort runs the abort handler on every attached
  accessor, and its commit, when the adapter's commit succeeds, runs the commit handler on
  every attached accessor.
\<close>

theorem notifications_clear_exclusive_marker:
  "m_exclusive_runner (on_write_transaction_abort t a) = m_exclusive_runner a - {t} \<and>
   m_exclusive_runner (on_write_transaction_commit t a) = m_exclusive_runner a - {t} \<and>
   m_cached_size (on_write_transaction_commit t a) = m_cached_size a \<and>
   m_cached_size_is_valid (on_write_transaction_commit t a) = m_cached_size_is_valid a \<and>
   (\<forall>c \<in> set (m_attached_container_receivers s).
      objects (abort_db_transaction ad t s) c =
        map_option (on_write_transaction_abort t) (objects s c)) \<and>
   (fst (ad_commit_transaction ad (m_db_adapter_ptr s)) \<longrightarrow>
      (\<forall>c \<in> set (m_attached_container_receivers s).
         objects (snd (commit_db_transaction ad t s)) c =
           map_option (on_write_transaction_commit t) (objects s c)))"
  by (simp add: on_write_transaction_abort_def on_write_transaction_commit_def
      clear_exclusive_mode_for_this_thread_def abort_db_transaction_def
      commit_db_transaction_def split_beta adapter_call_fst adapter_call_snd
      CHECK_AND_ASSERT_THROW_MES_def fold_receiver_call_objects)

text \<open>
  The amended C1 on the example state, for the thread 7 and the accessor at address 1,
  which thread 7 has put in exclusive mode.
\<close>

theorem notifications_clear_exclusive_marker_witness:
  "1 \<in> set (m_attached_container_receivers (example_state True)) \<and>
   fst (ad_commit_transaction mem_adapter (m_db_adapter_ptr (example_state True))) \<and>
   m_exclusive_runner (on_write_transaction_abort 7 (new_accessor\<lparr>m_exclusive_runner := {7, 8}\<rparr>)) = {8} \<and>
   map_option m_exclusive_runner
     (objects (abort_db_transaction mem_adapter 7 (example_state True)) 1) = Some {} \<and>
   map_option m_exclusive_runner
     (objects (snd (commit_db_transaction mem_adapter 7 (example_state True))) 1) = Some {}"
  using notifications_clear_exclusive_marker
      [of 7 "new_accessor\<lparr>m_exclusive_runner := {7, 8}\<rparr>" "example_state True" mem_adapter]
  by (simp add: example_state_simps mem_adapter_simps new_accessor_def
      on_write_transaction_abort_def on_write_transaction_commit_def
      clear_exclusive_mode_for_this_thread_def insert_Diff_if)

subsection \<open>Mutations and the size cache\<close>

text \<open>
  C2: after \<open>set(key, value)\<close>, after \<open>erase(key)\<close> and after \<open>clear()\<close> the
  accessor's cached size is invalid, for every accessor state, every key and value,
  every adapter and adapter state, whether or not the cache was valid before and
  whatever threads are in exclusive mode.
\<close>

theorem mutations_invalidate_size_cache:
  "\<not> m_cached_size_is_valid (fst (accessor_set value_type_serializable key val a s)) \<and>
   \<not> m_cached_size_is_valid (fst (accessor_erase ad tkey_to_pointer k a s)) \<and>
   \<not> m_cached_size_is_valid (fst (snd (accessor_clear ad a s)))"
  by (simp add: accessor_set_def accessor_erase_def accessor_clear_def run_exclusively_def
      split_beta)

text \<open>
  C2 on an accessor with a valid cached size, over the adapter in memory that fails.
\<close>

theorem mutations_invalidate_size_cache_witness:
  "m_cached_size_is_valid (new_accessor\<lparr>m_cached_size_is_valid := True\<rparr>) \<and>
   \<not> m_cached_size_is_valid (fst (accessor_set False [107 :: 8 word] (1 :: 8 word)
        (new_accessor\<lparr>m_cached_size_is_valid := True\<rparr>) (example_state False))) \<and>
   \<not> m_cached_size_is_valid (fst (accessor_erase mem_adapter tkey_to_pointer_string [107]
        (new_accessor\<lparr>m_cached_size_is_valid := True\<rparr>) (example_state False))) \<and>
   \<not> m_cached_size_is_valid (fst (snd (accessor_clear mem_adapter
        (new_accessor\<lparr>m_cached_size_is_valid := True\<rparr>) (example_state False))))"
  using mutations_invalidate_size_cache
      [of False "[107 :: 8 word]" "1 :: 8 word" "new_accessor\<lparr>m_cached_size_is_valid := True\<rparr>"
        "example_state False" mem_adapter tkey_to_pointer_string "[107]"]
  by simp

subsection \<open>Beginning a transaction\<close>

text \<open>
  C3: \<open>begin_db_transaction(read_only_access)\<close> returns what the adapter's
  \<open>begin_transaction\<close> returned; it calls the adapter first and then
  \<open>on_write_transaction_begin\<close> on every attached receiver, in the order of the set,
  whether the adapter returned true or false; every attached accessor is left as its
  handler leaves it.
\<close>

theorem begin_db_transaction_notifies_regardless:
  "fst (begin_db_transaction ad t ro s) = fst (ad_begin_transaction ad ro (m_db_adapter_ptr s)) \<and>
   m_db_adapter_ptr (snd (begin_db_transaction ad t ro s)) =
     snd (ad_begin_transaction ad ro (m_db_adapter_ptr s)) \<and>
   calls (snd (begin_db_transaction ad t ro s)) =
     calls s @ Call_begin_transaction ro # map Notify_begin (m_attached_container_receivers s) \<and>
   (\<forall>c \<in> set (m_attached_container_receivers s).
      objects (snd (begin_db_transaction ad t ro s)) c =
        map_option (on_write_transaction_begin t) (objects s c))"
  by (simp add: begin_db_transaction_def split_beta adapter_call_fst adapter_call_snd
      fold_receiver_call_calls fold_receiver_call_adapter fold_receiver_call_objects
      on_write_transaction_begin_idem)

text \<open>
  C3 on the example state with the adapter failing: the call returns false, and both
  accessors have been notified; the one at address 2 now has thread 7 in exclusive mode.
\<close>

theorem begin_db_transaction_notifies_regardless_witness:
  "\<not> fst (begin_db_transaction mem_adapter 7 False (example_state False)) \<and>
   calls (snd (begin_db_transaction mem_adapter 7 False (example_state False))) =
     [Call_begin_transaction False, Notify_begin 1, Notify_begin 2] \<and>
   2 \<in> set (m_attached_container_receivers (example_state False)) \<and>
   map_option m_exclusive_runner
     (objects (snd (begin_db_transaction mem_adapter 7 False (example_state False))) 2) = Some {7}"
  using begin_db_transaction_notifies_regardless [of mem_adapter 7 False "example_state False"]
  by (simp add: example_state_simps mem_adapter_simps new_accessor_def
      on_write_transaction_begin_def set_exclusive_mode_for_this_thread_def)

subsection \<open>The cached size\<close>

text \<open>
  C4: when the calling thread is in exclusive mode and the cache is valid, \<open>size()\<close>
  returns the cached size and changes nothing, so it makes no adapter call. Otherwise it
  returns what the adapter's \<open>get_table_size\<close> returns for the accessor's table, and
  stores that result in the cache and marks the cache valid exactly when the calling
  thread is in exclusive mode. It makes no adapter call if and only if the thread is in
  exclusive mode and the cache is valid. \<open>size_no_cache()\<close> always makes the adapter
  call, returns its result and leaves the accessor as it was.
\<close>

theorem accessor_size_cache_rule:
  "(t \<in> m_exclusive_runner a \<and> m_cached_size_is_valid a \<longrightarrow>
      accessor_size ad t a s = (m_cached_size a, a, s)) \<and>
   (\<not> (t \<in> m_exclusive_runner a \<and> m_cached_size_is_valid a) \<longrightarrow>
      accessor_size ad t a s =
        (fst (ad_get_table_size ad (m_tid a) (m_db_adapter_ptr s)),
         (if t \<in> m_exclusive_runner a
          then a\<lparr>m_cached_size := fst (ad_get_table_size ad (m_tid a) (m_db_adapter_ptr s)),
                 m_cached_size_is_valid := True\<rparr>
          else a),
         s\<lparr>m_db_adapter_ptr := snd (ad_get_table_size ad (m_tid a) (m_db_adapter_ptr s)),
           calls := calls s @ [Call_get_table_size (m_tid a)]\<rparr>)) \<and>
   (calls (snd (snd (accessor_size ad t a s))) = calls s \<longleftrightarrow>
      t \<in> m_exclusive_runner a \<and> m_cached_size_is_valid a) \<and>
   size_no_cache ad a s =
     (fst (ad_get_table_size ad (m_tid a) (m_db_adapter_ptr s)), a,
      s\<lparr>m_db_adapter_ptr := snd (ad_get_table_size ad (m_tid a) (m_db_adapter_ptr s)),
        calls := calls s @ [Call_get_table_size (m_tid a)]\<rparr>)"
  by (simp add: accessor_size_def size_no_cache_def run_def db_bridge_base_size_def
      adapter_call_def split_beta)

text \<open>
  C4 on the example state, whose table 0 holds one entry, for an accessor whose cached
  size is 5: in exclusive mode with a valid cache the answer is 5 and nothing changes;
  outside exclusive mode the answer is 1 and the cache is not written; in exclusive mode
  with an invalid cache the answer 1 is stored and marked valid.
\<close>

theorem accessor_size_cache_rule_witness:
  "accessor_size mem_adapter 7
     (new_accessor\<lparr>m_exclusive_runner := {7}, m_cached_size := 5, m_cached_size_is_valid := True\<rparr>)
     (example_state True) =
     (5, new_accessor\<lparr>m_exclusive_runner := {7}, m_cached_size := 5, m_cached_size_is_valid := True\<rparr>,
      example_state True) \<and>
   fst (accessor_size mem_adapter 7 (new_accessor\<lparr>m_cached_size := 5, m_cached_size_is_valid := True\<rparr>)
     (example_state True)) = 1 \<and>
   fst (snd (accessor_size mem_adapter 7 (new_accessor\<lparr>m_cached_size := 5, m_cached_size_is_valid := True\<rparr>)
     (example_state True))) = new_accessor\<lparr>m_cached_size := 5, m_cached_size_is_valid := True\<rparr> \<and>
   fst (snd (accessor_size mem_adapter 7 (new_accessor\<lparr>m_exclusive_runner := {7}, m_cached_size := 5\<rparr>)
     (example_state True))) =
     new_accessor\<lparr>m_exclusive_runner := {7}, m_cached_size := 1, m_cached_size_is_valid := True\<rparr>"
  using accessor_size_cache_rule [of 7
      "new_accessor\<lparr>m_exclusive_runner := {7}, m_cached_size := 5, m_cached_size_is_valid := True\<rparr>"
      mem_adapter "example_state True"]
    accessor_size_cache_rule [of 7
      "new_accessor\<lparr>m_cached_size := 5, m_cached_size_is_valid := True\<rparr>"
      mem_adapter "example_state True"]
    accessor_size_cache_rule [of 7
      "new_accessor\<lparr>m_exclusive_runner := {7}, m_cached_size := 5\<rparr>"
      mem_adapter "example_state True"]
  by (simp add: example_state_simps mem_adapter_simps new_accessor_def
      mem_get_table_size_def in_table_def)

subsection \<open>Erasing with validation\<close>

text \<open>
  C5 does not hold of the code. \<open>erase_validate\<close> takes its answer from the accessor's
  \<open>get\<close>, and the helper's \<open>get\<close> returns \<open>nullptr\<close> for every key: in the example
  state the key 107 is in table 0 (the adapter's \<open>get\<close> finds it), \<open>erase_validate\<close>
  removes the entry and returns false.
\<close>

theorem erase_validate_present_key_returns_false:
  "fst (ad_get mem_adapter 0 [107] (m_db_adapter_ptr (example_state True))) = (True, [1, 0]) \<and>
   \<not> fst (erase_validate mem_adapter tkey_to_pointer_string False TYPE(8 word \<times> 8 word) [107]
            new_accessor (example_state True)) \<and>
   entries (m_db_adapter_ptr (snd (snd
     (erase_validate mem_adapter tkey_to_pointer_string False TYPE(8 word \<times> 8 word) [107]
        new_accessor (example_state True))))) = []"
  by (simp add: erase_validate_def accessor_get_def value_type_helper_selector_get_def
      pod_object_value_helper_get_def db_bridge_base_erase_def adapter_call_def
      run_exclusively_def tkey_to_pointer_string_def new_accessor_def
      example_state_simps mem_adapter_simps mem_get_def mem_erase_def)

subsection \<open>Committing a transaction\<close>

text \<open>
  C6: \<open>commit_db_transaction\<close> calls the adapter's \<open>commit_transaction\<close>. When the
  adapter reports failure it throws, having made no other call, and no accessor object
  has changed. When the adapter reports success it returns normally, having called
  \<open>on_write_transaction_commit\<close> on every attached receiver after the adapter call,
  and every attached accessor is left as that handler leaves it.
\<close>

theorem commit_db_transaction_outcomes:
  "(\<not> fst (ad_commit_transaction ad (m_db_adapter_ptr s)) \<longrightarrow>
      fst (commit_db_transaction ad t s) = Inl (runtime_error ''commit_transaction failed'') \<and>
      calls (snd (commit_db_transaction ad t s)) = calls s @ [Call_commit_transaction] \<and>
      objects (snd (commit_db_transaction ad t s)) = objects s) \<and>
   (fst (ad_commit_transaction ad (m_db_adapter_ptr s)) \<longrightarrow>
      fst (commit_db_transaction ad t s) = Inr () \<and>
      m_db_adapter_ptr (snd (commit_db_transaction ad t s)) =
        snd (ad_commit_transaction ad (m_db_adapter_ptr s)) \<and>
      calls (snd (commit_db_transaction ad t s)) =
        calls s @ Call_commit_transaction # map Notify_commit (m_attached_container_receivers s) \<and>
      (\<forall>c \<in> set (m_attached_container_receivers s).
         objects (snd (commit_db_transaction ad t s)) c =
           map_option (on_write_transaction_commit t) (objects s c)))"
  by (simp add: commit_db_transaction_def split_beta adapter_call_fst adapter_call_snd
      CHECK_AND_ASSERT_THROW_MES_def fold_receiver_call_calls fold_receiver_call_adapter
      fold_receiver_call_objects on_write_transaction_commit_idem)

text \<open>C6 on the example state, once with the adapter failing and once with it working.\<close>

theorem commit_db_transaction_outcomes_witness:
  "\<not> fst (ad_commit_transaction mem_adapter (m_db_adapter_ptr (example_state False))) \<and>
   fst (commit_db_transaction mem_adapter 7 (example_state False)) =
     Inl (runtime_error ''commit_transaction failed'') \<and>
   calls (snd (commit_db_transaction mem_adapter 7 (example_state False))) =
     [Call_commit_transaction] \<and>
   fst (ad_commit_transaction mem_adapter (m_db_adapter_ptr (example_state True))) \<and>
   fst (commit_db_transaction mem_adapter 7 (example_state True)) = Inr () \<and>
   calls (snd (commit_db_transaction mem_adapter 7 (example_state True))) =
     [Call_commit_transaction, Notify_commit 1, Notify_commit 2]"
  using commit_db_transaction_outcomes [of mem_adapter "example_state False" 7]
    commit_db_transaction_outcomes [of mem_adapter "example_state True" 7]
  by (simp add: example_state_simps mem_adapter_simps)

subsection \<open>Attaching and detaching receivers\<close>

text \<open>
  C7: attaching a receiver that is in the attached set throws and leaves the state as it
  was, and so does detaching a receiver that is not in the set. Detaching a receiver that
  is in the set succeeds and removes that receiver and no other; attaching one that is
  not in the set succeeds, adds that receiver and no other, and makes the set one larger.
  Attaching a receiver and then detaching it leaves the state, and so the size of the
  set, as it was.
\<close>

theorem attach_detach_paired:
  "(receiver \<in> set (m_attached_container_receivers s) \<longrightarrow>
      attach_container_receiver receiver s =
        (Inl (runtime_error ''failed, container already attached''), s) \<and>
      fst (detach_container_receiver receiver s) = Inr () \<and>
      set (m_attached_container_receivers (snd (detach_container_receiver receiver s))) =
        set (m_attached_container_receivers s) - {receiver}) \<and>
   (receiver \<notin> set (m_attached_container_receivers s) \<longrightarrow>
      detach_container_receiver receiver s =
        (Inl (runtime_error ''failed, container has never been attached''), s) \<and>
      fst (attach_container_receiver receiver s) = Inr () \<and>
      set (m_attached_container_receivers (snd (attach_container_receiver receiver s))) =
        insert receiver (set (m_attached_container_receivers s)) \<and>
      length (m_attached_container_receivers (snd (attach_container_receiver receiver s))) =
        Suc (length (m_attached_container_receivers s)) \<and>
      detach_container_receiver receiver (snd (attach_container_receiver receiver s)) =
        (Inr (), s))"
  by (simp add: attach_container_receiver_def detach_container_receiver_def
      std_set_insert_def std_set_erase_def CHECK_AND_ASSERT_THROW_MES_def removeAll_insort
      set_insort_key)

text \<open>
  C7 on the example state, whose attached set is 1, 2: attaching 2 again and detaching
  3 throw; attaching 3 gives 1, 2, 3; detaching 1 gives 2; attaching and then detaching 3
  gives the example state back.
\<close>

theorem attach_detach_paired_witness:
  "2 \<in> set (m_attached_container_receivers (example_state True)) \<and>
   3 \<notin> set (m_attached_container_receivers (example_state True)) \<and>
   fst (attach_container_receiver 2 (example_state True)) =
     Inl (runtime_error ''failed, container already attached'') \<and>
   fst (detach_container_receiver 3 (example_state True)) =
     Inl (runtime_error ''failed, container has never been attached'') \<and>
   m_attached_container_receivers (snd (attach_container_receiver 3 (example_state True))) =
     [1, 2, 3] \<and>
   m_attached_container_receivers (snd (detach_container_receiver 1 (example_state True))) = [2] \<and>
   detach_container_receiver 3 (snd (attach_container_receiver 3 (example_state True))) =
     (Inr (), example_state True)"
proof -
  have in2: "2 \<in> set (m_attached_container_receivers (example_state True))"
    and out3: "3 \<notin> set (m_attached_container_receivers (example_state True))"
    by (simp_all add: example_state_simps)
  from in2 attach_detach_paired [of 2 "example_state True"]
  have "fst (attach_container_receiver 2 (example_state True)) =
     Inl (runtime_error ''failed, container already attached'')"
    by simp
  moreover from out3 attach_detach_paired [of 3 "example_state True"]
  have "fst (detach_container_receiver 3 (example_state True)) =
     Inl (runtime_error ''failed, container has never been attached'')"
    and "detach_container_receiver 3 (snd (attach_container_receiver 3 (example_state True))) =
     (Inr (), example_state True)"
    by simp_all
  moreover have "m_attached_container_receivers
      (snd (attach_container_receiver 3 (example_state True))) = [1, 2, 3]"
    by (simp add: attach_container_receiver_def std_set_insert_def example_state_simps)
  moreover have "m_attached_container_receivers
      (snd (detach_container_receiver 1 (example_state True))) = [2]"
    by (simp add: detach_container_receiver_def std_set_erase_def example_state_simps)
  ultimately show ?thesis
    using in2 out3 by simp
qed

subsection \<open>Clearing a table through the accessor\<close>

text \<open>
  C8, as stated, fails. The accessor's \<open>clear\<close> drops the result of the broker's
  \<open>clear\<close> and ends in \<open>return true\<close>: over the adapter in memory that fails,
  \<open>clear_table\<close> returns false for the accessor's table and the accessor's \<open>clear\<close>
  returns 1.
\<close>

theorem accessor_clear_hides_adapter_failure:
  "\<not> fst (ad_clear_table mem_adapter (m_tid new_accessor)
            (m_db_adapter_ptr (example_state False))) \<and>
   fst (accessor_clear mem_adapter new_accessor (example_state False)) = 1"
  by (simp add: accessor_clear_def db_bridge_base_clear_def adapter_call_def
      run_exclusively_def split_beta example_state_simps mem_adapter_simps mem_clear_table_def)

text \<open>
  C8, amended: the accessor's \<open>clear()\<close> makes the one adapter call \<open>clear_table\<close>
  for its table, through the broker's \<open>clear\<close>, and returns true (1) to its caller
  whatever the adapter reported; the adapter's result is what the broker's \<open>clear(tid)\<close>
  returns.
\<close>

theorem accessor_clear_returns_true:
  "fst (accessor_clear ad a s) = 1 \<and>
   snd (snd (accessor_clear ad a s)) = snd (db_bridge_base_clear ad (m_tid a) s) \<and>
   fst (db_bridge_base_clear ad tid s) = fst (ad_clear_table ad tid (m_db_adapter_ptr s)) \<and>
   calls (snd (db_bridge_base_clear ad tid s)) = calls s @ [Call_clear_table tid]"
  by (simp add: accessor_clear_def db_bridge_base_clear_def adapter_call_fst adapter_call_snd
      run_exclusively_def split_beta)

text \<open>The amended C8 on the example state, with the adapter working and failing.\<close>

theorem accessor_clear_returns_true_witness:
  "fst (accessor_clear mem_adapter new_accessor (example_state True)) = 1 \<and>
   fst (db_bridge_base_clear mem_adapter 0 (example_state True)) \<and>
   fst (accessor_clear mem_adapter new_accessor (example_state False)) = 1 \<and>
   \<not> fst (db_bridge_base_clear mem_adapter 0 (example_state False))"
  using accessor_clear_returns_true [of mem_adapter new_accessor "example_state True" 0]
    accessor_clear_returns_true [of mem_adapter new_accessor "example_state False" 0]
  by (simp add: example_state_simps mem_adapter_simps mem_clear_table_def)

subsection \<open>Fixed-layout values\<close>

text \<open>
  C9: let the value type be a POD type and let the adapter return, to a \<open>get\<close> that
  follows a successful \<open>set\<close>, exactly the bytes stored. The bytes that
  \<open>set_pod_object\<close> hands to the adapter are as many as the size of the type. When
  \<open>set_pod_object(tid, k, v)\<close> has succeeded, \<open>get_pod_object(tid, k, out)\<close> returns
  true and \<open>out\<close> is \<open>v\<close>. In any state: when the buffer the adapter returns for
  \<open>(tid, k)\<close> has a length other than the size of the type, \<open>get_pod_object\<close>
  returns false and leaves \<open>out\<close> as it was.
\<close>

theorem pod_object_round_trip:
  assumes "is_pod V" and "returns_last_stored ad"
  shows "length (object_bytes V v) = pod_sizeof V \<and>
    (fst (set_pod_object ad tkey_to_pointer V tid k v s) \<longrightarrow>
       fst (get_pod_object ad tkey_to_pointer V tid k out
              (snd (set_pod_object ad tkey_to_pointer V tid k v s))) = (True, v)) \<and>
    (length (snd (fst (ad_get ad tid (tkey_to_pointer k) (m_db_adapter_ptr s)))) \<noteq> pod_sizeof V \<longrightarrow>
       fst (get_pod_object ad tkey_to_pointer V tid k out s) = (False, out))"
proof -
  have len: "length (object_bytes V v) = pod_sizeof V"
    and inv: "object_of_bytes V (object_bytes V v) = v"
    using assms(1) by (simp_all add: is_pod_def)
  have rt: "fst (set_pod_object ad tkey_to_pointer V tid k v s) \<longrightarrow>
       fst (get_pod_object ad tkey_to_pointer V tid k out
              (snd (set_pod_object ad tkey_to_pointer V tid k v s))) = (True, v)"
  proof
    assume ok: "fst (set_pod_object ad tkey_to_pointer V tid k v s)"
    let ?st = "ad_set ad tid (tkey_to_pointer k) (object_bytes V v) (m_db_adapter_ptr s)"
    from ok have stored: "fst ?st"
      by (simp add: set_pod_object_def adapter_call_def split_beta Let_def split: if_splits)
    with assms(2)
    have got: "fst (ad_get ad tid (tkey_to_pointer k) (snd ?st)) = (True, object_bytes V v)"
      by (simp add: returns_last_stored_def)
    have "m_db_adapter_ptr (snd (set_pod_object ad tkey_to_pointer V tid k v s)) = snd ?st"
      by (simp add: set_pod_object_def adapter_call_def split_beta Let_def)
    with got show "fst (get_pod_object ad tkey_to_pointer V tid k out
              (snd (set_pod_object ad tkey_to_pointer V tid k v s))) = (True, v)"
      by (simp add: get_pod_object_def adapter_call_def split_beta CHECK_AND_ASSERT_MES_def
          Let_def len inv)
  qed
  have mismatch:
    "length (snd (fst (ad_get ad tid (tkey_to_pointer k) (m_db_adapter_ptr s)))) \<noteq> pod_sizeof V \<longrightarrow>
       fst (get_pod_object ad tkey_to_pointer V tid k out s) = (False, out)"
    by (auto simp add: get_pod_object_def adapter_call_def split_beta Let_def
        CHECK_AND_ASSERT_MES_def)
  from len rt mismatch show ?thesis by simp
qed

text \<open>
  C9 over the adapter in memory: the two-byte struct (3, 4) stored under the key 5 of
  table 0 is read back as (3, 4); read as a \<open>uint8_t\<close>, the two-byte value under the
  key 107 is refused.
\<close>

theorem pod_object_round_trip_witness:
  "is_pod two_bytes_pod \<and> is_pod uint8_pod \<and> returns_last_stored mem_adapter \<and>
   fst (set_pod_object mem_adapter tkey_to_pointer_string two_bytes_pod 0 [5] (3, 4)
          (example_state True)) \<and>
   fst (get_pod_object mem_adapter tkey_to_pointer_string two_bytes_pod 0 [5] (0, 0)
          (snd (set_pod_object mem_adapter tkey_to_pointer_string two_bytes_pod 0 [5] (3, 4)
             (example_state True)))) = (True, (3, 4)) \<and>
   length (snd (fst (ad_get mem_adapter 0 (tkey_to_pointer_string [107])
     (m_db_adapter_ptr (example_state True))))) \<noteq> pod_sizeof uint8_pod \<and>
   fst (get_pod_object mem_adapter tkey_to_pointer_string uint8_pod 0 [107] 9
          (example_state True)) = (False, 9)"
proof -
  have stored: "fst (set_pod_object mem_adapter tkey_to_pointer_string two_bytes_pod 0 [5] (3, 4)
          (example_state True))"
    by (simp add: set_pod_object_def adapter_call_def mem_adapter_simps mem_set_def
        example_state_simps Let_def)
  have differs: "length (snd (fst (ad_get mem_adapter 0 (tkey_to_pointer_string [107])
     (m_db_adapter_ptr (example_state True))))) \<noteq> pod_sizeof uint8_pod"
    by (simp add: mem_adapter_simps mem_get_def example_state_simps tkey_to_pointer_string_def
        uint8_pod_def)
  from pod_object_round_trip [OF is_pod_two_bytes_pod returns_last_stored_mem_adapter,
      of "(3, 4)" tkey_to_pointer_string 0 "[5]" "example_state True" "(0, 0)"] stored
  have "fst (get_pod_object mem_adapter tkey_to_pointer_string two_bytes_pod 0 [5] (0, 0)
          (snd (set_pod_object mem_adapter tkey_to_pointer_string two_bytes_pod 0 [5] (3, 4)
             (example_state True)))) = (True, (3, 4))"
    by simp
  moreover from pod_object_round_trip [OF is_pod_uint8_pod returns_last_stored_mem_adapter,
      of 0 tkey_to_pointer_string 0 "[107]" "example_state True" 9] differs
  have "fst (get_pod_object mem_adapter tkey_to_pointer_string uint8_pod 0 [107] 9
          (example_state True)) = (False, 9)"
    by simp
  ultimately show ?thesis
    using is_pod_two_bytes_pod is_pod_uint8_pod returns_last_stored_mem_adapter stored differs
    by simp
qed

subsection \<open>Closing the broker\<close>

text \<open>
  C10: after \<open>close()\<close> the broker's \<open>is_open()\<close> is false, whatever the adapter's
  \<open>close\<close> returned; \<open>close()\<close> returns what the adapter's \<open>close\<close> returned; and
  after a second \<open>close()\<close> \<open>is_open()\<close> is false as well.
\<close>

theorem close_marks_closed:
  "\<not> is_open (snd (db_bridge_base_close ad s)) \<and>
   fst (db_bridge_base_close ad s) = fst (ad_close ad (m_db_adapter_ptr s)) \<and>
   \<not> is_open (snd (db_bridge_base_close ad (snd (db_bridge_base_close ad s))))"
  by (simp add: db_bridge_base_close_def is_open_def adapter_call_fst adapter_call_snd)

text \<open>C10 on the example state, which is open, with the adapter failing.\<close>

theorem close_marks_closed_witness:
  "is_open (example_state False) \<and>
   \<not> fst (db_bridge_base_close mem_adapter (example_state False)) \<and>
   \<not> is_open (snd (db_bridge_base_close mem_adapter (example_state False))) \<and>
   \<not> is_open (snd (db_bridge_base_close mem_adapter
          (snd (db_bridge_base_close mem_adapter (example_state False)))))"
  using close_marks_closed [of mem_adapter "example_state False"]
  by (simp add: is_open_def example_state_simps mem_adapter_simps)

end
